theory Spec2Isabelle
  imports Complex_Main
begin

text \<open>
  The session rating analyzer answers an English question in three steps: the
  \<^verbatim>\<open>QueryGenerator\<close> asks a language model for a MongoDB aggregation pipeline, the
  \<^verbatim>\<open>MongoService\<close> runs it and has a failed pipeline repaired within a retry budget, and
  the \<^verbatim>\<open>ResultAnalyzer\<close> summarises the result set and asks the language model for an
  analysis. This theory embeds the three services (\<^verbatim>\<open>services/queryGenerator.js\<close>,
  \<^verbatim>\<open>services/mongoService.js\<close> and the result analyzer) as functions over an explicit
  history of external calls, with thrown errors as values, and proves what the
  specification says of them.
\<close>

section \<open>JavaScript values\<close>

text \<open>
  The services handle parsed JSON (the structured query) and the documents the store
  returns. A number is an IEEE double: a finite double is a rational, and the three
  non-finite values are kept apart (negative zero is identified with zero).
\<close>

datatype jsnum = Finite rat | NaN | PosInfinity | NegInfinity

datatype jsval =
    JUndefined
  | JNull
  | JBool bool
  | JNumber jsnum
  | JString string
  | JArray "jsval list"
  | JObject "(string \<times> jsval) list"

text \<open>A record of a result set: the own properties of a plain object, in order.\<close>

type_synonym document = "(string \<times> jsval) list"

text \<open>Every error the services throw is \<^verbatim>\<open>new Error(message)\<close>.\<close>

datatype js_error = Error (message: string)

fun truthy :: "jsval \<Rightarrow> bool" where
  "truthy JUndefined = False"
| "truthy JNull = False"
| "truthy (JBool b) = b"
| "truthy (JNumber n) = (n \<noteq> Finite 0 \<and> n \<noteq> NaN)"
| "truthy (JString s) = (s \<noteq> [])"
| "truthy (JArray xs) = True"
| "truthy (JObject fs) = True"

fun isArray :: "jsval \<Rightarrow> bool" where
  "isArray (JArray xs) = True"
| "isArray v = False"

text \<open>
  Decimal text of an integer, as a template literal prints a length or a small count
  (below \<open>10\<^sup>2\<^sup>1\<close> JavaScript prints every digit).
\<close>

definition digit :: "nat \<Rightarrow> char" where
  "digit d = ''0123456789'' ! d"

fun show_nat :: "nat \<Rightarrow> string" where
  "show_nat n = (if n < 10 then [digit n] else show_nat (n div 10) @ [digit (n mod 10)])"

declare show_nat.simps [simp del]

definition show_int :: "int \<Rightarrow> string" where
  "show_int i = (if i < 0 then ''-'' @ show_nat (nat (- i)) else show_nat (nat i))"

section \<open>The collaborators: oracle, store and language built-ins\<close>

text \<open>
  The request \<^verbatim>\<open>openai.chat.completions.create\<close> receives: the model name, the content
  of the system message (\<^verbatim>\<open>this.context\<close>, \<open>None\<close> while it is \<^verbatim>\<open>null\<close>), the content of the
  user message, the temperature and the token budget.
\<close>

record chat_request =
  model :: string
  system_content :: "string option"
  user_content :: string
  temperature :: rat
  max_tokens :: nat

text \<open>The response: \<^verbatim>\<open>message.content\<close> of each choice (\<open>None\<close> for \<^verbatim>\<open>null\<close>).\<close>

datatype chat_completion = ChatCompletion (choices: "string option list")

text \<open>
  The world is the history of the external calls made so far, each with what it
  answered: \<open>Inl\<close> the message of the error it raised, \<open>Inr\<close> its value. The oracle and
  the store answer as functions of that history, so they may answer the same request
  differently each time.
\<close>

datatype event =
    Aggregate jsval "string + document list"
  | ChatCreate chat_request "string + chat_completion"

type_synonym world = "event list"

text \<open>
  What the code calls and this repository does not define: the oracle, the store
  (\<^verbatim>\<open>await this.collection.aggregate(q).toArray()\<close>, which returns the documents or throws)
  and the built-ins of the language. \<open>JSON_parse\<close> answers \<open>Inl\<close> the message of its
  SyntaxError; \<open>JSON_stringify v n\<close> is the text with indentation \<open>n\<close>. On two numbers
  the operators \<^verbatim>\<open>+\<close> and \<^verbatim>\<open>/\<close> are the arithmetic of doubles, \<open>num_add\<close> and
  \<open>num_divide\<close>, and never throw; with another operand they convert it first, which can
  throw a TypeError (\<open>add_other\<close>, \<open>divide_other\<close>: \<open>Inl\<close> its message). \<open>toFixed\<close> is the
  method of a number. \<open>ToString\<close> is the conversion that \<^verbatim>\<open>join\<close> applies to an element
  that is not a string; it throws on an object that cannot be converted.
\<close>

record env =
  chat_completions_create :: "world \<Rightarrow> chat_request \<Rightarrow> string + chat_completion"
  collection_aggregate :: "world \<Rightarrow> jsval \<Rightarrow> string + document list"
  JSON_parse :: "string \<Rightarrow> string + jsval"
  JSON_stringify :: "jsval \<Rightarrow> nat \<Rightarrow> string"
  String_trim :: "string \<Rightarrow> string"
  ToString :: "jsval \<Rightarrow> string + string"
  num_add :: "jsnum \<Rightarrow> jsnum \<Rightarrow> jsnum"
  num_divide :: "jsnum \<Rightarrow> jsnum \<Rightarrow> jsnum"
  add_other :: "jsval \<Rightarrow> jsval \<Rightarrow> string + jsval"
  divide_other :: "jsval \<Rightarrow> jsval \<Rightarrow> string + jsnum"
  toFixed :: "jsnum \<Rightarrow> nat \<Rightarrow> string"

text \<open>
  \<^verbatim>\<open>response.choices[0].message.content.trim()\<close>: a TypeError when there is no choice or
  the content is \<^verbatim>\<open>null\<close>.
\<close>

definition message_content_trim :: "env \<Rightarrow> chat_completion \<Rightarrow> string + string" where
  "message_content_trim env response =
     (case choices response of
        [] \<Rightarrow> Inl ''Cannot read properties of undefined (reading 'message')''
      | None # cs \<Rightarrow> Inl ''Cannot read properties of null (reading 'trim')''
      | Some content # cs \<Rightarrow> Inr (String_trim env content))"

section \<open>QueryGenerator\<close>

record query_generator =
  qg_isInitialized :: bool
  qg_context :: "string option"

text \<open>The schema and rules preamble that \<^verbatim>\<open>initialize\<close> stores.\<close>

definition QUERY_GENERATOR_CONTEXT :: string where
  "QUERY_GENERATOR_CONTEXT =
     ''You are a MongoDB query generator for a session rating database.\<newline>''
     @ ''\<newline>''
     @ ''DATABASE SCHEMA:\<newline>''
     @ ''Collection: sessions\<newline>''
     @ ''Document Structure:\<newline>''
     @ ''{\<newline>''
     @ ''  \"_id\": ObjectId,\<newline>''
     @ ''  \"topicCode\": \"string (e.g., 'Test Review Session')\",\<newline>''
     @ ''  \"type\": \"string (e.g., 'SRE Assignment Review')\",\<newline>''
     @ ''  \"domain\": \"string (e.g., 'SRE', 'Cloud', 'Backend', 'Frontend', 'Data Science')\",\<newline>''
     @ ''  \"class\": \"string (e.g., 'Cloud Computing & AWS Services')\",\<newline>''
     @ ''  \"cohorts\": [\"array of strings\"],\<newline>''
     @ ''  \"instructor\": \"string (e.g., 'Rishi Bollu')\",\<newline>''
     @ ''  \"sessionDate\": \"Date\",\<newline>''
     @ ''  \"ratings\": {\<newline>''
     @ ''    \"overallAverage\": \"number (1-5 scale)\",\<newline>''
     @ ''    \"totalResponses\": \"number\",\<newline>''
     @ ''    \"studentsAttended\": \"number\", \<newline>''
     @ ''    \"cohortStrength\": \"number\",\<newline>''
     @ ''    \"percentRated\": \"number (percentage)\",\<newline>''
     @ ''    \"yesResponses\": \"number\",\<newline>''
     @ ''    \"noResponses\": \"number\",\<newline>''
     @ ''    \"yesPercent\": \"number\",\<newline>''
     @ ''    \"noPercent\": \"number\"\<newline>''
     @ ''  },\<newline>''
     @ ''  \"metadata\": {\<newline>''
     @ ''    \"sourceSheet\": \"string\",\<newline>''
     @ ''    \"sheetRowNumber\": \"number\",\<newline>''
     @ ''    \"lastSyncedAt\": \"Date\"\<newline>''
     @ ''  },\<newline>''
     @ ''  \"createdAt\": \"Date\",\<newline>''
     @ ''  \"updatedAt\": \"Date\"\<newline>''
     @ ''}\<newline>''
     @ ''\<newline>''
     @ ''IMPORTANT RULES:\<newline>''
     @ ''1. Always return ONLY valid MongoDB aggregation pipeline as JSON array\<newline>''
     @ ''2. Use aggregation pipeline format: [{ $match: {...} }, { $group: {...} }, ...]\<newline>''
     @ ''3. For date queries, use proper MongoDB date operators like $gte, $lte\<newline>''
     @ ''4. For quarter calculations: Q1 (Jan-Mar), Q2 (Apr-Jun), Q3 (Jul-Sep), Q4 (Oct-Dec)\<newline>''
     @ ''5. Use $dateToString, $year, $month for date formatting\<newline>''
     @ ''6. For rating improvements, use $group and $project to calculate differences\<newline>''
     @ ''7. Handle case-insensitive text matching with regex when needed\<newline>''
     @ ''8. Return empty array [] if query cannot be converted to MongoDB\<newline>''
     @ ''\<newline>''
     @ ''EXAMPLES:\<newline>''
     @ ''Query: \"Average rating for Rishi Bollu\"\<newline>''
     @ ''Response: [{\"$match\":{\"instructor\":\"Rishi Bollu\"}},{\"$group\":{\"_id\":null,\"avgRating\":{\"$avg\":\"$ratings.overallAverage\"},\"totalSessions\":{\"$sum\":1}}}]\<newline>''
     @ ''\<newline>''
     @ ''Query: \"Sessions in 2024\"  \<newline>''
     @ ''Response: [{\"$match\":{\"sessionDate\":{\"$gte\":\"2024-01-01T00:00:00.000Z\",\"$lte\":\"2024-12-31T23:59:59.999Z\"}}}]\<newline>''
     @ ''\<newline>''
     @ ''Convert the user's English query into a MongoDB aggregation pipeline. Return only the JSON array.''"
definition initialize :: "query_generator \<Rightarrow> query_generator" where
  "initialize this =
     (if qg_isInitialized this then this
      else this\<lparr>qg_context := Some QUERY_GENERATOR_CONTEXT, qg_isInitialized := True\<rparr>)"

definition generateQuery ::
  "env \<Rightarrow> query_generator \<Rightarrow> string \<Rightarrow> world \<Rightarrow> (js_error + jsval) \<times> world" where
  "generateQuery env this userQuery w =
     (if \<not> qg_isInitialized this then (Inl (Error ''Query Generator not initialized''), w)
      else
        (let request = \<lparr>model = ''gpt-4'', system_content = qg_context this,
                         user_content = userQuery, temperature = 1 / 10, max_tokens = 1000\<rparr>;
             outcome = chat_completions_create env w request;
             w' = w @ [ChatCreate request outcome]
         in case outcome of
              Inl msg \<Rightarrow> (Inl (Error (''Failed to generate MongoDB query: '' @ msg)), w')
            | Inr response \<Rightarrow>
                (case message_content_trim env response of
                   Inl msg \<Rightarrow> (Inl (Error (''Failed to generate MongoDB query: '' @ msg)), w')
                 | Inr generatedQuery \<Rightarrow>
                     (case JSON_parse env generatedQuery of
                        Inl msg \<Rightarrow>
                          (Inl (Error (''Failed to generate MongoDB query: ''
                                        @ ''Invalid MongoDB query generated: '' @ msg)), w')
                      | Inr mongoQuery \<Rightarrow>
                          if \<not> isArray mongoQuery then
                            (Inl (Error (''Failed to generate MongoDB query: ''
                                          @ ''Invalid MongoDB query generated: ''
                                          @ ''Query must be an array'')), w')
                          else (Inr mongoQuery, w')))))"

definition fixPrompt :: "env \<Rightarrow> string \<Rightarrow> string \<Rightarrow> jsval \<Rightarrow> string" where
  "fixPrompt env originalQuery errorMessage failedQuery =
     ''The previous MongoDB query failed with error: \"'' @ errorMessage @ ''\"\<newline>\<newline>''
     @ ''Original user request: \"'' @ originalQuery @ ''\"\<newline>''
     @ ''Failed query: '' @ JSON_stringify env failedQuery 0 @ ''\<newline>\<newline>''
     @ ''Please provide a corrected MongoDB aggregation pipeline that fixes this error.\<newline>''
     @ ''Return only the corrected JSON array.''"

text \<open>
  The structured query in the words of the specification: a sequence of stage objects.
\<close>

fun is_stage_object :: "jsval \<Rightarrow> bool" where
  "is_stage_object (JObject fs) = True"
| "is_stage_object v = False"

fun is_structured_query :: "jsval \<Rightarrow> bool" where
  "is_structured_query (JArray stages) = list_all is_stage_object stages"
| "is_structured_query v = False"

text \<open>
  The \<^verbatim>\<open>try\<close> block of \<^verbatim>\<open>fixQuery\<close> from the point where the awaited call has answered,
  with its \<^verbatim>\<open>catch\<close>: every failure is rethrown with the prefix.
\<close>

definition fixQuery_try :: "env \<Rightarrow> string + chat_completion \<Rightarrow> js_error + jsval" where
  "fixQuery_try env outcome =
     (case outcome of
        Inl msg \<Rightarrow> Inl (Error (''Failed to fix query: '' @ msg))
      | Inr response \<Rightarrow>
          (case message_content_trim env response of
             Inl msg \<Rightarrow> Inl (Error (''Failed to fix query: '' @ msg))
           | Inr content \<Rightarrow>
               (case JSON_parse env content of
                  Inl msg \<Rightarrow> Inl (Error (''Failed to fix query: '' @ msg))
                | Inr fixedQuery \<Rightarrow> Inr fixedQuery)))"

definition fixQuery ::
  "env \<Rightarrow> query_generator \<Rightarrow> string \<Rightarrow> string \<Rightarrow> jsval \<Rightarrow> world \<Rightarrow> (js_error + jsval) \<times> world" where
  "fixQuery env this originalQuery errorMessage failedQuery w =
     (let request = \<lparr>model = ''gpt-4'', system_content = qg_context this,
                      user_content = fixPrompt env originalQuery errorMessage failedQuery,
                      temperature = 1 / 10, max_tokens = 1000\<rparr>;
          outcome = chat_completions_create env w request
      in (fixQuery_try env outcome, w @ [ChatCreate request outcome]))"

section \<open>MongoService.executeQueryWithRetry\<close>

text \<open>
  The \<^verbatim>\<open>for\<close> loop, from the iteration \<open>attempt\<close> with the query \<open>currentQuery\<close>. The
  result is \<open>Inr (Some results)\<close> for \<^verbatim>\<open>return results\<close>, \<open>Inr None\<close> when the loop ends
  and the function returns \<^verbatim>\<open>undefined\<close>, and \<open>Inl\<close> the error thrown. The budget
  \<open>maxRetries\<close> is an integer, as the specification types it; a caller that leaves it
  out gets 2. Every evaluation of the \<^verbatim>\<open>await\<close> in the \<^verbatim>\<open>try\<close> block is an execution
  attempt, recorded in the history with its outcome.
\<close>

function retry_loop ::
  "env \<Rightarrow> query_generator \<Rightarrow> string \<Rightarrow> int \<Rightarrow> int \<Rightarrow> jsval \<Rightarrow> world
     \<Rightarrow> (js_error + document list option) \<times> world" where
  "retry_loop env qg originalQuery maxRetries attempt currentQuery w =
     (if attempt < maxRetries then
        (case collection_aggregate env w currentQuery of
           Inr results \<Rightarrow> (Inr (Some results), w @ [Aggregate currentQuery (Inr results)])
         | Inl msg \<Rightarrow>
             (let w1 = w @ [Aggregate currentQuery (Inl msg)] in
              if attempt = maxRetries - 1 then
                (Inl (Error (''Database query failed after '' @ show_int maxRetries
                              @ '' attempts: '' @ msg)), w1)
              else
                (case fixQuery env qg originalQuery msg currentQuery w1 of
                   (Inl fixError, w2) \<Rightarrow>
                     (Inl (Error (''Query could not be fixed: '' @ message fixError)), w2)
                 | (Inr fixedQuery, w2) \<Rightarrow>
                     retry_loop env qg originalQuery maxRetries (attempt + 1) fixedQuery w2)))
      else (Inr None, w))"
  by pat_completeness auto
termination
  by (relation "measure (\<lambda>(env, qg, originalQuery, maxRetries, attempt, currentQuery, w).
                           nat (maxRetries - attempt))") auto

declare retry_loop.simps [simp del]

definition executeQueryWithRetry ::
  "env \<Rightarrow> query_generator \<Rightarrow> jsval \<Rightarrow> string \<Rightarrow> int \<Rightarrow> world
     \<Rightarrow> (js_error + document list option) \<times> world" where
  "executeQueryWithRetry env qg mongoQuery originalQuery maxRetries w =
     retry_loop env qg originalQuery maxRetries 0 mongoQuery w"

text \<open>The execution attempts of a history: its calls of the store.\<close>

fun is_Aggregate :: "event \<Rightarrow> bool" where
  "is_Aggregate (Aggregate q outcome) = True"
| "is_Aggregate (ChatCreate request outcome) = False"

definition attempts :: "world \<Rightarrow> nat" where
  "attempts w = length (filter is_Aggregate w)"

section \<open>ResultAnalyzer\<close>

record result_analyzer =
  ra_isInitialized :: bool
  ra_context :: "string option"

definition RESULT_ANALYZER_CONTEXT :: string where
  "RESULT_ANALYZER_CONTEXT =
     ''You are a data analyst specializing in educational session ratings and performance metrics.\<newline>''
     @ ''\<newline>''
     @ ''Your job is to analyze query results from a session rating database and provide clear, actionable insights.\<newline>''
     @ ''\<newline>''
     @ ''CONTEXT ABOUT THE DATA:\<newline>''
     @ ''- Sessions are educational classes with instructors\<newline>''
     @ ''- Ratings are on a 1-5 scale (5 being excellent)\<newline>''
     @ ''- Domains include: SRE, Cloud, Backend, Frontend, Data Science, etc.\<newline>''
     @ ''- Each session has attendance and feedback metrics\<newline>''
     @ ''- Data spans multiple quarters and years\<newline>''
     @ ''\<newline>''
     @ ''ANALYSIS GUIDELINES:\<newline>''
     @ ''1. When showing aggregated results (like \"average rating for each instructor\"), provide ALL results in a clear, organized format\<newline>''
     @ ''2. For queries asking for lists, rankings, or comparisons, show the COMPLETE data\<newline>''
     @ ''3. Include specific numbers and percentages when relevant\<newline>''
     @ ''4. Compare performance where appropriate (vs average, trends over time)\<newline>''
     @ ''5. Point out any concerning patterns (low ratings, poor attendance)\<newline>''
     @ ''6. Keep responses focused and actionable\<newline>''
     @ ''7. If no data found, explain what this means\<newline>''
     @ ''8. Format numbers clearly (e.g., \"4.2 out of 5\", \"85% attendance\")\<newline>''
     @ ''9. For large result sets, organize data in tables or clear lists\<newline>''
     @ ''10. Always show ALL instructors/domains/entities when user asks for \"each\" or \"all\"\<newline>''
     @ ''\<newline>''
     @ ''RESPONSE FORMAT:\<newline>''
     @ ''- For aggregated queries (like \"average rating for each instructor\"), provide a COMPLETE list or table of ALL results\<newline>''
     @ ''- Start with a direct answer to the user's question\<newline>''
     @ ''- Show ALL data when user asks for \"each\", \"all\", or wants a complete list\<newline>''
     @ ''- Follow with supporting details and context\<newline>''
     @ ''- End with actionable insights or recommendations if applicable\<newline>''
     @ ''- Keep it conversational but professional\<newline>''
     @ ''- Format large lists in readable tables or organized sections\<newline>''
     @ ''\<newline>''
     @ ''Do not:\<newline>''
     @ ''- Include raw MongoDB queries or technical details\<newline>''
     @ ''- Overwhelm with too many statistics\<newline>''
     @ ''- Make assumptions beyond what the data shows''"
definition initialize_analyzer :: "result_analyzer \<Rightarrow> result_analyzer" where
  "initialize_analyzer this =
     (if ra_isInitialized this then this
      else this\<lparr>ra_context := Some RESULT_ANALYZER_CONTEXT, ra_isInitialized := True\<rparr>)"

text \<open>
  Property access. \<^verbatim>\<open>r.k\<close> reads an own property of a document or gives \<^verbatim>\<open>undefined\<close>; on
  a value that is not an object the keys read here (\<^verbatim>\<open>overallAverage\<close>) give \<^verbatim>\<open>undefined\<close>.
\<close>

definition has_field :: "document \<Rightarrow> string \<Rightarrow> bool" where
  "has_field d k = (k \<in> set (map fst d))"

fun get_prop :: "jsval \<Rightarrow> string \<Rightarrow> jsval" where
  "get_prop (JObject fs) k = (case map_of fs k of Some v \<Rightarrow> v | None \<Rightarrow> JUndefined)"
| "get_prop v k = JUndefined"

text \<open>
  \<^verbatim>\<open>firstResult.hasOwnProperty(k)\<close> calls whatever the property \<^verbatim>\<open>hasOwnProperty\<close> of the
  record is. A record with a field of that name shadows the method of
  \<^verbatim>\<open>Object.prototype\<close> by a value that is no function, and the call throws a TypeError.
\<close>

definition hasOwnProperty :: "document \<Rightarrow> string \<Rightarrow> string + bool" where
  "hasOwnProperty firstResult k =
     (if has_field firstResult ''hasOwnProperty''
      then Inl ''firstResult.hasOwnProperty is not a function''
      else Inr (has_field firstResult k))"

text \<open>The chain of \<^verbatim>\<open>||\<close>: the calls from left to right, up to the first that is true.\<close>

fun hasOwnProperty_any :: "document \<Rightarrow> string list \<Rightarrow> string + bool" where
  "hasOwnProperty_any firstResult [] = Inr False"
| "hasOwnProperty_any firstResult (k # ks) =
     (case hasOwnProperty firstResult k of
        Inl e \<Rightarrow> Inl e
      | Inr found \<Rightarrow> if found then Inr True else hasOwnProperty_any firstResult ks)"

definition results_json :: "document list \<Rightarrow> jsval" where
  "results_json rs = JArray (map JObject rs)"

definition isAggregatedData :: "document list option \<Rightarrow> string + bool" where
  "isAggregatedData results =
     (case results of
        None \<Rightarrow> Inr False
      | Some [] \<Rightarrow> Inr False
      | Some (firstResult # rest) \<Rightarrow>
          (case hasOwnProperty firstResult ''_id'' of
             Inl e \<Rightarrow> Inl e
           | Inr has_id \<Rightarrow>
               (case (if has_id
                      then hasOwnProperty_any firstResult
                             [''avgRating'', ''averageRating'', ''totalSessions'',
                              ''count'', ''sum'', ''avg'']
                      else Inr False) of
                  Inl e \<Rightarrow> Inl e
                | Inr hasAggregationFields \<Rightarrow>
                    Inr (hasAggregationFields \<and> length (firstResult # rest) \<le> 200))))"

text \<open>\<^verbatim>\<open>results.filter((r) => r.ratings && r.ratings.overallAverage)\<close>\<close>

definition ratingsFound :: "document list \<Rightarrow> document list" where
  "ratingsFound results =
     filter (\<lambda>r. truthy (get_prop (JObject r) ''ratings'') \<and>
                 truthy (get_prop (get_prop (JObject r) ''ratings'') ''overallAverage'')) results"

text \<open>The operators \<^verbatim>\<open>+\<close> and \<^verbatim>\<open>/\<close>; the quotient is a number.\<close>

definition js_add :: "env \<Rightarrow> jsval \<Rightarrow> jsval \<Rightarrow> string + jsval" where
  "js_add env a b =
     (case (a, b) of
        (JNumber x, JNumber y) \<Rightarrow> Inr (JNumber (num_add env x y))
      | _ \<Rightarrow> add_other env a b)"

definition js_divide :: "env \<Rightarrow> jsval \<Rightarrow> jsval \<Rightarrow> string + jsnum" where
  "js_divide env a b =
     (case (a, b) of
        (JNumber x, JNumber y) \<Rightarrow> Inr (num_divide env x y)
      | _ \<Rightarrow> divide_other env a b)"

text \<open>\<^verbatim>\<open>ratingsFound.reduce((sum, r) => sum + r.ratings.overallAverage, 0) / ratingsFound.length\<close>\<close>

fun reduce_sum :: "env \<Rightarrow> jsval \<Rightarrow> document list \<Rightarrow> string + jsval" where
  "reduce_sum env acc [] = Inr acc"
| "reduce_sum env acc (r # rs) =
     (case js_add env acc (get_prop (get_prop (JObject r) ''ratings'') ''overallAverage'') of
        Inl e \<Rightarrow> Inl e
      | Inr acc' \<Rightarrow> reduce_sum env acc' rs)"

definition avgRating :: "env \<Rightarrow> document list \<Rightarrow> string + jsnum" where
  "avgRating env found =
     (case reduce_sum env (JNumber (Finite 0)) found of
        Inl e \<Rightarrow> Inl e
      | Inr numerator \<Rightarrow> js_divide env numerator (JNumber (Finite (of_nat (length found)))))"

text \<open>
  \<^verbatim>\<open>[...new Set(xs)]\<close>: the values in the order of their first occurrence. A set compares
  primitive values by value (SameValueZero) and objects by identity; every object of a
  result set is an object of its own, so an array or object equals no other element.
\<close>

fun primitive :: "jsval \<Rightarrow> bool" where
  "primitive (JArray xs) = False"
| "primitive (JObject fs) = False"
| "primitive v = True"

definition sameValueZero :: "jsval \<Rightarrow> jsval \<Rightarrow> bool" where
  "sameValueZero a b = (primitive a \<and> a = b)"

fun set_add_all :: "jsval list \<Rightarrow> jsval list \<Rightarrow> jsval list" where
  "set_add_all seen [] = seen"
| "set_add_all seen (x # xs) =
     set_add_all (if list_ex (\<lambda>y. sameValueZero y x) seen then seen else seen @ [x]) xs"

definition unique_truthy :: "string \<Rightarrow> document list \<Rightarrow> jsval list" where
  "unique_truthy k results =
     set_add_all [] (filter truthy (map (\<lambda>r. get_prop (JObject r) k) results))"

text \<open>
  \<^verbatim>\<open>xs.join(", ")\<close> on truthy elements: each element is converted in turn, a string as it
  is, and the first conversion that throws ends the call.
\<close>

definition element_text :: "env \<Rightarrow> jsval \<Rightarrow> string + string" where
  "element_text env v = (case v of JString s \<Rightarrow> Inr s | _ \<Rightarrow> ToString env v)"

fun element_texts :: "env \<Rightarrow> jsval list \<Rightarrow> string + string list" where
  "element_texts env [] = Inr []"
| "element_texts env (v # vs) =
     (case element_text env v of
        Inl e \<Rightarrow> Inl e
      | Inr s \<Rightarrow> (case element_texts env vs of Inl e \<Rightarrow> Inl e | Inr ss \<Rightarrow> Inr (s # ss)))"

fun join_texts :: "string \<Rightarrow> string list \<Rightarrow> string" where
  "join_texts sep [] = []"
| "join_texts sep [x] = x"
| "join_texts sep (x # y # ys) = x @ sep @ join_texts sep (y # ys)"

definition join :: "env \<Rightarrow> string \<Rightarrow> jsval list \<Rightarrow> string + string" where
  "join env sep xs =
     (case element_texts env xs of Inl e \<Rightarrow> Inl e | Inr ss \<Rightarrow> Inr (join_texts sep ss))"

text \<open>
  The last part of \<^verbatim>\<open>prepareResultSummary\<close>, from \<^verbatim>\<open>let summary\<close> to \<^verbatim>\<open>return summary\<close>:
  \<open>Inl\<close> the message of the TypeError when the sum or a \<^verbatim>\<open>join\<close> throws.
\<close>

definition digest :: "env \<Rightarrow> document list \<Rightarrow> string + string" where
  "digest env rs =
     (let summary0 = ''Data overview:\<newline>'';
          summary1 = summary0 @ ''- Total records: '' @ show_nat (length rs) @ ''\<newline>'';
          sampleData = take 10 rs;
          summary2 = summary1 @ ''- Sample data (first 10 records): ''
                     @ JSON_stringify env (results_json sampleData) 2 @ ''\<newline>'';
          found = ratingsFound rs
      in case (if length found > 0 then
                 (case avgRating env found of
                    Inl e \<Rightarrow> Inl e
                  | Inr avg \<Rightarrow>
                      Inr (summary2 @ ''- Average rating across results: ''
                           @ toFixed env avg 2 @ ''\<newline>''))
               else Inr summary2) of
           Inl e \<Rightarrow> Inl e
         | Inr summary3 \<Rightarrow>
             (let instructors = unique_truthy ''instructor'' rs
              in case (if length instructors > 0 then
                         (case join env '', '' (take 5 instructors) of
                            Inl e \<Rightarrow> Inl e
                          | Inr listed \<Rightarrow>
                              Inr (summary3 @ ''- Unique instructors: ''
                                   @ show_nat (length instructors) @ '' ('' @ listed
                                   @ (if length instructors > 5 then ''...'' else [])
                                   @ '')\<newline>''))
                       else Inr summary3) of
                   Inl e \<Rightarrow> Inl e
                 | Inr summary4 \<Rightarrow>
                     (let domains = unique_truthy ''domain'' rs
                      in if length domains > 0 then
                           (case join env '', '' domains of
                              Inl e \<Rightarrow> Inl e
                            | Inr listed \<Rightarrow>
                                Inr (summary4 @ ''- Domains covered: '' @ listed @ ''\<newline>''))
                         else Inr summary4)))"

text \<open>
  \<open>None\<close> is an absent result set (\<^verbatim>\<open>undefined\<close>). The result is \<open>Inr\<close> the summary, or
  \<open>Inl\<close> the message of the TypeError thrown.
\<close>

definition prepareResultSummary :: "env \<Rightarrow> document list option \<Rightarrow> string + string" where
  "prepareResultSummary env results =
     (case results of
        None \<Rightarrow> Inr ''No data found matching the query criteria.''
      | Some rs \<Rightarrow>
          if length rs = 0 then Inr ''No data found matching the query criteria.''
          else
            (case isAggregatedData results of
               Inl e \<Rightarrow> Inl e
             | Inr aggregated \<Rightarrow>
                 if aggregated then
                   Inr (''Complete aggregated results ('' @ show_nat (length rs)
                        @ '' records):\<newline>'' @ JSON_stringify env (results_json rs) 2)
                 else if length rs \<le> 10 then
                   Inr (''Complete results: '' @ JSON_stringify env (results_json rs) 2)
                 else digest env rs))"

text \<open>
  The shape the recogniser looks for: an identifier field and one of the aggregate-value
  fields. The specification's reading of "recognized as aggregated" asks it of every
  record.
\<close>

definition carries_aggregate :: "document \<Rightarrow> bool" where
  "carries_aggregate r =
     (has_field r ''_id'' \<and>
      list_ex (has_field r)
        [''avgRating'', ''averageRating'', ''totalSessions'', ''count'', ''sum'', ''avg''])"

definition every_record_aggregated :: "document list \<Rightarrow> bool" where
  "every_record_aggregated rs = (list_all carries_aggregate rs \<and> length rs \<le> 200)"




text \<open>The distinct elements of a list, each at its first occurrence.\<close>

primrec distinct_first :: "'a list \<Rightarrow> 'a list" where
  "distinct_first [] = []"
| "distinct_first (x # xs) = x # removeAll x (distinct_first xs)"






definition analysisPrompt :: "string \<Rightarrow> document list \<Rightarrow> string \<Rightarrow> string" where
  "analysisPrompt originalQuery rs resultSummary =
     ''User asked: \"'' @ originalQuery @ ''\"\<newline>\<newline>''
     @ ''Query returned '' @ show_nat (length rs) @ '' results.\<newline>\<newline>''
     @ resultSummary @ ''\<newline>\<newline>''
     @ ''Please analyze these results and provide clear insights about what this data tells us in response to the user's question.''"

text \<open>
  Everything after the guard is inside the \<^verbatim>\<open>try\<close>: an error of \<^verbatim>\<open>prepareResultSummary\<close>
  is caught and rethrown with the prefix before the oracle is called, and so is the
  TypeError of \<^verbatim>\<open>results.length\<close> on an absent result set.
\<close>

definition analyzeResults ::
  "env \<Rightarrow> result_analyzer \<Rightarrow> string \<Rightarrow> document list option \<Rightarrow> world
     \<Rightarrow> (js_error + string) \<times> world" where
  "analyzeResults env this originalQuery results w =
     (if \<not> ra_isInitialized this then (Inl (Error ''Result Analyzer not initialized''), w)
      else
        (case prepareResultSummary env results of
           Inl msg \<Rightarrow> (Inl (Error (''Failed to analyze results: '' @ msg)), w)
         | Inr resultSummary \<Rightarrow>
             (case results of
                None \<Rightarrow>
                  (Inl (Error (''Failed to analyze results: ''
                                @ ''Cannot read properties of undefined (reading 'length')'')), w)
              | Some rs \<Rightarrow>
                  (let request = \<lparr>model = ''gpt-4'', system_content = ra_context this,
                                   user_content = analysisPrompt originalQuery rs resultSummary,
                                   temperature = 3 / 10, max_tokens = 800\<rparr>;
                       outcome = chat_completions_create env w request;
                       w' = w @ [ChatCreate request outcome]
                   in case outcome of
                        Inl msg \<Rightarrow> (Inl (Error (''Failed to analyze results: '' @ msg)), w')
                      | Inr response \<Rightarrow>
                          (case message_content_trim env response of
                             Inl msg \<Rightarrow> (Inl (Error (''Failed to analyze results: '' @ msg)), w')
                           | Inr analysis \<Rightarrow> (Inr analysis, w'))))))"

section \<open>Test doubles\<close>

text \<open>
  Doubles of the collaborators, for the concrete runs below. The oracle double answers
  every request alike; the store double fails its first \<open>k\<close> calls and then returns
  \<open>rows\<close>. The built-ins are given by what they do on the inputs of those runs:
  \<open>ascii_trim\<close> strips ASCII white space, \<open>stub_JSON_parse\<close> knows three texts and
  rejects every other, the arithmetic is exact on finite numbers (as doubles are while
  nothing is rounded), \<open>exact_toFixed\<close> rounds half away from zero as the language
  defines \<^verbatim>\<open>toFixed\<close>, and \<open>stub_JSON_stringify\<close> stands for the serialisation. The runs
  convert no object and add no operand that is not a number.
\<close>

definition ascii_space :: "char \<Rightarrow> bool" where
  "ascii_space c = (c \<in> set [CHR 0x09, CHR 0x0A, CHR 0x0B, CHR 0x0C, CHR 0x0D, CHR '' ''])"

definition ascii_trim :: "string \<Rightarrow> string" where
  "ascii_trim s = rev (dropWhile ascii_space (rev (dropWhile ascii_space s)))"

definition stub_JSON_parse :: "string \<Rightarrow> string + jsval" where
  "stub_JSON_parse s =
     (if s = ''[]'' then Inr (JArray [])
      else if s = ''{}'' then Inr (JObject [])
      else if s = ''[1]'' then Inr (JArray [JNumber (Finite 1)])
      else Inl ''Unexpected token'')"

definition stub_JSON_stringify :: "jsval \<Rightarrow> nat \<Rightarrow> string" where
  "stub_JSON_stringify v n = ''<json>''"

definition stub_ToString :: "jsval \<Rightarrow> string + string" where
  "stub_ToString v =
     (case v of JString s \<Rightarrow> Inr s | JBool b \<Rightarrow> Inr (if b then ''true'' else ''false'')
      | _ \<Rightarrow> Inr ''[object Object]'')"

fun exact_add :: "jsnum \<Rightarrow> jsnum \<Rightarrow> jsnum" where
  "exact_add (Finite a) (Finite b) = Finite (a + b)"
| "exact_add a b = NaN"

fun exact_divide :: "jsnum \<Rightarrow> jsnum \<Rightarrow> jsnum" where
  "exact_divide (Finite a) (Finite b) =
     (if b \<noteq> 0 then Finite (a / b)
      else if a = 0 then NaN
      else if 0 < a then PosInfinity else NegInfinity)"
| "exact_divide a b = NaN"

definition stub_add_other :: "jsval \<Rightarrow> jsval \<Rightarrow> string + jsval" where
  "stub_add_other a b = Inr (JNumber NaN)"

definition stub_divide_other :: "jsval \<Rightarrow> jsval \<Rightarrow> string + jsnum" where
  "stub_divide_other a b = Inr NaN"

definition pad_zeros :: "nat \<Rightarrow> string \<Rightarrow> string" where
  "pad_zeros d s = replicate (d - length s) CHR ''0'' @ s"

fun exact_toFixed :: "jsnum \<Rightarrow> nat \<Rightarrow> string" where
  "exact_toFixed (Finite x) d =
     (let n = nat \<lfloor>\<bar>x\<bar> * 10 ^ d + 1 / 2\<rfloor>
      in (if x < 0 then ''-'' else [])
         @ show_nat (n div 10 ^ d)
         @ (if d = 0 then [] else ''.'' @ pad_zeros d (show_nat (n mod 10 ^ d))))"
| "exact_toFixed PosInfinity d = ''Infinity''"
| "exact_toFixed NegInfinity d = ''-Infinity''"
| "exact_toFixed NaN d = ''NaN''"

definition stub_env ::
  "(world \<Rightarrow> chat_request \<Rightarrow> string + chat_completion)
     \<Rightarrow> (world \<Rightarrow> jsval \<Rightarrow> string + document list) \<Rightarrow> env" where
  "stub_env oracle store =
     \<lparr>chat_completions_create = oracle, collection_aggregate = store,
      JSON_parse = stub_JSON_parse, JSON_stringify = stub_JSON_stringify,
      String_trim = ascii_trim, ToString = stub_ToString,
      num_add = exact_add, num_divide = exact_divide,
      add_other = stub_add_other, divide_other = stub_divide_other,
      toFixed = exact_toFixed\<rparr>"

definition oracle_replies :: "string \<Rightarrow> world \<Rightarrow> chat_request \<Rightarrow> string + chat_completion" where
  "oracle_replies content w request = Inr (ChatCompletion [Some content])"

definition oracle_unavailable :: "world \<Rightarrow> chat_request \<Rightarrow> string + chat_completion" where
  "oracle_unavailable w request = Inl ''Connection error.''"

definition store_fails_first ::
  "nat \<Rightarrow> document list \<Rightarrow> world \<Rightarrow> jsval \<Rightarrow> string + document list" where
  "store_fails_first k rows w q = (if attempts w < k then Inl ''boom'' else Inr rows)"

definition store_always_fails :: "world \<Rightarrow> jsval \<Rightarrow> string + document list" where
  "store_always_fails w q = Inl ''boom''"

definition ready_generator :: query_generator where
  "ready_generator = initialize \<lparr>qg_isInitialized = False, qg_context = None\<rparr>"

definition ready_analyzer :: result_analyzer where
  "ready_analyzer = initialize_analyzer \<lparr>ra_isInitialized = False, ra_context = None\<rparr>"

definition sample_rows :: "document list" where
  "sample_rows = [[(''_id'', JNull), (''avgRating'', JNumber (Finite (43 / 10)))]]"

text \<open>A budget of three, a store that fails twice and an oracle that repairs with \<^verbatim>\<open>[]\<close>.\<close>

definition run_third_attempt ::
  "(js_error + document list option) \<times> world" where
  "run_third_attempt =
     executeQueryWithRetry (stub_env (oracle_replies ''[]'') (store_fails_first 2 sample_rows))
       ready_generator (JArray []) ''Average rating for Rishi Bollu'' 3 []"

text \<open>A budget of two, a store that always fails and an oracle that repairs with \<^verbatim>\<open>[]\<close>.\<close>

definition run_exhausted ::
  "(js_error + document list option) \<times> world" where
  "run_exhausted =
     executeQueryWithRetry (stub_env (oracle_replies ''[]'') store_always_fails)
       ready_generator (JArray []) ''Average rating for Rishi Bollu'' 2 []"

text \<open>A budget of five, a store that always fails and an oracle that cannot be reached.\<close>

definition run_oracle_down ::
  "(js_error + document list option) \<times> world" where
  "run_oracle_down =
     executeQueryWithRetry (stub_env oracle_unavailable store_always_fails)
       ready_generator (JArray []) ''Average rating for Rishi Bollu'' 5 []"

text \<open>
  Eleven session records: six instructors, two domains, nine ratings of 4 or 5, one
  rating of 0 and one record without ratings. \<open>rated11\<close> has a 3 where \<open>sessions11\<close> has
  the 0. \<open>mixed11\<close> puts one aggregated record in front of the first ten, and the record
  of \<open>shadowed_rows\<close> has a field named \<^verbatim>\<open>hasOwnProperty\<close>.
\<close>

definition session :: "string \<Rightarrow> string \<Rightarrow> rat \<Rightarrow> document" where
  "session instructor domain rating =
     [(''instructor'', JString instructor), (''domain'', JString domain),
      (''ratings'', JObject [(''overallAverage'', JNumber (Finite rating))])]"

definition sessions11 :: "document list" where
  "sessions11 =
     [session ''Ann'' ''SRE'' 4, session ''Bob'' ''SRE'' 5, session ''Cy'' ''Cloud'' 4,
      session ''Dee'' ''Cloud'' 5, session ''Eve'' ''SRE'' 4, session ''Flo'' ''SRE'' 5,
      session ''Ann'' ''SRE'' 4, session ''Bob'' ''Cloud'' 5, session ''Cy'' ''SRE'' 4,
      session ''Ann'' ''SRE'' 0, [(''instructor'', JString ''Bob'')]]"


definition mixed11 :: "document list" where
  "mixed11 = [(''_id'', JString ''A''), (''count'', JNumber (Finite 3))] # butlast sessions11"

definition shadowed_rows :: "document list" where
  "shadowed_rows =
     [[(''hasOwnProperty'', JNumber (Finite 1)), (''_id'', JNull), (''count'', JNumber (Finite 3))]]"

definition quiet_env :: env where
  "quiet_env = stub_env (oracle_replies []) store_always_fails"

section \<open>The retry loop\<close>

text \<open>
  What \<^verbatim>\<open>fixQuery\<close> returns is what its \<^verbatim>\<open>try\<close> block makes of the oracle's answer, and
  the call adds that one exchange to the history.
\<close>

lemma fixQuery_result:
  "fixQuery env qg oq msg q w = (res, w2) \<Longrightarrow>
     \<exists>request outcome. w2 = w @ [ChatCreate request outcome] \<and> res = fixQuery_try env outcome"
  by (auto simp: fixQuery_def Let_def)

text \<open>One iteration of the loop: the four ways it can go.\<close>

lemma retry_loop_cases:
  assumes "retry_loop env qg oq N a q w = (r, w')" and "a < N"
  obtains
    (success) rows where "collection_aggregate env w q = Inr rows"
      and "r = Inr (Some rows)" and "w' = w @ [Aggregate q (Inr rows)]"
  | (exhausted) m where "collection_aggregate env w q = Inl m" and "a = N - 1"
      and "r = Inl (Error (''Database query failed after '' @ show_int N @ '' attempts: '' @ m))"
      and "w' = w @ [Aggregate q (Inl m)]"
  | (repair_failed) m request outcome e where "collection_aggregate env w q = Inl m"
      and "a \<noteq> N - 1" and "fixQuery_try env outcome = Inl e"
      and "r = Inl (Error (''Query could not be fixed: '' @ message e))"
      and "w' = w @ [Aggregate q (Inl m), ChatCreate request outcome]"
  | (repaired) m request outcome fixed where "collection_aggregate env w q = Inl m"
      and "a \<noteq> N - 1" and "fixQuery_try env outcome = Inr fixed"
      and "retry_loop env qg oq N (a + 1) fixed
             (w @ [Aggregate q (Inl m), ChatCreate request outcome]) = (r, w')"
proof (cases "collection_aggregate env w q")
  case (Inr rows)
  with assms show ?thesis by (intro success[of rows]) (auto simp: retry_loop.simps)
next
  case (Inl m)
  show ?thesis
  proof (cases "a = N - 1")
    case True
    with assms Inl show ?thesis by (intro exhausted[of m]) (auto simp: retry_loop.simps)
  next
    case False
    obtain res w2 where fx: "fixQuery env qg oq m q (w @ [Aggregate q (Inl m)]) = (res, w2)"
      by (cases "fixQuery env qg oq m q (w @ [Aggregate q (Inl m)])")
    from fixQuery_result[OF fx] obtain request outcome where
      w2: "w2 = w @ [Aggregate q (Inl m), ChatCreate request outcome]"
      and res: "res = fixQuery_try env outcome" by auto
    have fx': "fixQuery env qg oq m q (w @ [Aggregate q (Inl m)]) =
                 (fixQuery_try env outcome, w @ [Aggregate q (Inl m), ChatCreate request outcome])"
      using fx w2 res by simp
    show ?thesis
    proof (cases "fixQuery_try env outcome")
      case (Inl e)
      with assms \<open>collection_aggregate env w q = Inl m\<close> False fx' show ?thesis
        by (intro repair_failed[of m outcome e request]) (auto simp: retry_loop.simps)
    next
      case (Inr fixed)
      with assms \<open>collection_aggregate env w q = Inl m\<close> False fx' show ?thesis
        by (intro repaired[of m outcome fixed request]) (auto simp: retry_loop.simps)
    qed
  qed
qed

text \<open>
  The calls a run adds to the history, from any iteration \<open>a\<close> with budget left: at most
  \<open>N - a\<close> attempts; a successful attempt is the result; when every attempt fails and
  every repair is accepted the budget is used up and the last failure is reported; a
  rejected repair is the last call and is reported.
\<close>

lemma retry_loop_run:
  "a < N \<Longrightarrow> retry_loop env qg oq N a q w = (r, w') \<Longrightarrow>
     \<exists>evs. w' = w @ evs \<and> attempts evs \<le> nat (N - a) \<and>
       (\<forall>q' rows. Aggregate q' (Inr rows) \<in> set evs \<longrightarrow> r = Inr (Some rows)) \<and>
       ((\<forall>q' out. Aggregate q' out \<in> set evs \<longrightarrow> isl out) \<and>
        (\<forall>request out. ChatCreate request out \<in> set evs \<longrightarrow> \<not> isl (fixQuery_try env out)) \<longrightarrow>
          attempts evs = nat (N - a) \<and>
          (\<exists>q' m. last evs = Aggregate q' (Inl m) \<and>
             r = Inl (Error (''Database query failed after '' @ show_int N @ '' attempts: '' @ m)))) \<and>
       (\<forall>pre request out post e. evs = pre @ ChatCreate request out # post \<and>
           fixQuery_try env out = Inl e \<longrightarrow>
           post = [] \<and> r = Inl (Error (''Query could not be fixed: '' @ message e)))"
proof (induction "nat (N - a)" arbitrary: a q w)
  case 0
  then show ?case by simp
next
  case (Suc n)
  from Suc.prems(2) Suc.prems(1) show ?case
  proof (cases rule: retry_loop_cases)
    case (success rows)
    with Suc.prems(1) show ?thesis
      by (intro exI[of _ "[Aggregate q (Inr rows)]"]) (auto simp: attempts_def Cons_eq_append_conv)
  next
    case (exhausted m)
    with Suc.prems(1) show ?thesis
      by (intro exI[of _ "[Aggregate q (Inl m)]"]) (auto simp: attempts_def Cons_eq_append_conv)
  next
    case (repair_failed m request outcome e)
    with Suc.prems(1) show ?thesis
      by (intro exI[of _ "[Aggregate q (Inl m), ChatCreate request outcome]"])
         (auto simp: attempts_def Cons_eq_append_conv)
  next
    case (repaired m request outcome fixed)
    have n: "n = nat (N - (a + 1))" and lt: "a + 1 < N"
      using Suc.hyps(2) Suc.prems(1) repaired(2) by auto
    from Suc.hyps(1)[OF n lt repaired(4)] obtain evs where
      w': "w' = (w @ [Aggregate q (Inl m), ChatCreate request outcome]) @ evs"
      and att: "attempts evs \<le> nat (N - (a + 1))"
      and succ: "\<forall>q' rows. Aggregate q' (Inr rows) \<in> set evs \<longrightarrow> r = Inr (Some rows)"
      and exh: "(\<forall>q' out. Aggregate q' out \<in> set evs \<longrightarrow> isl out) \<and>
        (\<forall>request out. ChatCreate request out \<in> set evs \<longrightarrow> \<not> isl (fixQuery_try env out)) \<longrightarrow>
          attempts evs = nat (N - (a + 1)) \<and>
          (\<exists>q' m. last evs = Aggregate q' (Inl m) \<and>
             r = Inl (Error (''Database query failed after '' @ show_int N @ '' attempts: '' @ m)))"
      and rep: "\<forall>pre request out post e. evs = pre @ ChatCreate request out # post \<and>
           fixQuery_try env out = Inl e \<longrightarrow>
           post = [] \<and> r = Inl (Error (''Query could not be fixed: '' @ message e))"
      by blast
    let ?evs = "Aggregate q (Inl m) # ChatCreate request outcome # evs"
    have 1: "w' = w @ ?evs" using w' by simp
    have 2: "attempts ?evs \<le> nat (N - a)" using att lt by (simp add: attempts_def)
    have 3: "\<forall>q' rows. Aggregate q' (Inr rows) \<in> set ?evs \<longrightarrow> r = Inr (Some rows)"
      using succ by auto
    have ne: "evs \<noteq> []" if "attempts evs = nat (N - (a + 1))"
      using that lt by (auto simp: attempts_def)
    have 4: "(\<forall>q' out. Aggregate q' out \<in> set ?evs \<longrightarrow> isl out) \<and>
        (\<forall>request out. ChatCreate request out \<in> set ?evs \<longrightarrow> \<not> isl (fixQuery_try env out)) \<longrightarrow>
          attempts ?evs = nat (N - a) \<and>
          (\<exists>q' m. last ?evs = Aggregate q' (Inl m) \<and>
             r = Inl (Error (''Database query failed after '' @ show_int N @ '' attempts: '' @ m)))"
    proof
      assume h: "(\<forall>q' out. Aggregate q' out \<in> set ?evs \<longrightarrow> isl out) \<and>
        (\<forall>request out. ChatCreate request out \<in> set ?evs \<longrightarrow> \<not> isl (fixQuery_try env out))"
      then have "attempts evs = nat (N - (a + 1)) \<and>
          (\<exists>q' m. last evs = Aggregate q' (Inl m) \<and>
             r = Inl (Error (''Database query failed after '' @ show_int N @ '' attempts: '' @ m)))"
        using exh by simp
      then show "attempts ?evs = nat (N - a) \<and>
          (\<exists>q' m. last ?evs = Aggregate q' (Inl m) \<and>
             r = Inl (Error (''Database query failed after '' @ show_int N @ '' attempts: '' @ m)))"
        using ne lt by (auto simp: attempts_def)
    qed
    have 5: "\<forall>pre request' out post e. ?evs = pre @ ChatCreate request' out # post \<and>
           fixQuery_try env out = Inl e \<longrightarrow>
           post = [] \<and> r = Inl (Error (''Query could not be fixed: '' @ message e))"
    proof (intro allI impI, elim conjE)
      fix pre request' out post e
      assume eq: "?evs = pre @ ChatCreate request' out # post"
        and bad: "fixQuery_try env out = Inl e"
      from eq obtain pre' where "evs = pre' @ ChatCreate request' out # post"
        using bad repaired(3) by (auto simp: Cons_eq_append_conv)
      with rep bad show "post = [] \<and> r = Inl (Error (''Query could not be fixed: '' @ message e))"
        by blast
    qed
    from 1 2 3 4 5 show ?thesis by blast
  qed
qed

text \<open>The three example runs, evaluated.\<close>

lemma run_third_attempt_value:
  "fst run_third_attempt = Inr (Some sample_rows) \<and> attempts (snd run_third_attempt) = 3"
  by (simp add: run_third_attempt_def executeQueryWithRetry_def retry_loop.simps fixQuery_def
      fixQuery_try_def stub_env_def oracle_replies_def store_fails_first_def attempts_def
      message_content_trim_def ascii_trim_def ascii_space_def stub_JSON_parse_def Let_def)

lemma run_exhausted_value:
  "fst run_exhausted = Inl (Error ''Database query failed after 2 attempts: boom'') \<and>
   attempts (snd run_exhausted) = 2"
  by code_simp

lemma run_oracle_down_value:
  "run_oracle_down =
     (Inl (Error ''Query could not be fixed: Failed to fix query: Connection error.''),
      [] @ [Aggregate (JArray []) (Inl ''boom'')]
         @ ChatCreate \<lparr>model = ''gpt-4'', system_content = qg_context ready_generator,
              user_content = fixPrompt (stub_env oracle_unavailable store_always_fails)
                               ''Average rating for Rishi Bollu'' ''boom'' (JArray []),
              temperature = 1 / 10, max_tokens = 1000\<rparr> (Inl ''Connection error.'') # [])"
  by (simp add: run_oracle_down_def executeQueryWithRetry_def retry_loop.simps fixQuery_def
      fixQuery_try_def stub_env_def oracle_unavailable_def store_always_fails_def Let_def)

text \<open>
  C10: with \<open>maxRetries \<le> 0\<close> the loop body never runs: the function returns
  \<^verbatim>\<open>undefined\<close> without an error, and the history of external calls is unchanged (no
  execution attempt, no repair call).
\<close>

theorem executeQueryWithRetry_no_budget:
  "maxRetries \<le> 0 \<Longrightarrow>
     executeQueryWithRetry env qg mongoQuery originalQuery maxRetries w = (Inr None, w)"
  by (simp add: executeQueryWithRetry_def retry_loop.simps)

theorem executeQueryWithRetry_no_budget_witness:
  "(0::int) \<le> 0 \<and>
   executeQueryWithRetry (stub_env (oracle_replies ''[]'') store_always_fails) ready_generator
     (JArray []) ''Average rating for Rishi Bollu'' 0 [] = (Inr None, [])"
  using executeQueryWithRetry_no_budget
    [of 0 "stub_env (oracle_replies ''[]'') store_always_fails" ready_generator
        "JArray []" "''Average rating for Rishi Bollu''" "[]"]
  by simp

text \<open>
  C1: with \<open>maxRetries = N \<ge> 1\<close> a run makes at most \<open>N\<close> execution attempts. If an
  attempt succeeds, its result set is returned. If every attempt fails and every repair
  is accepted, the run makes exactly \<open>N\<close> attempts and throws the error whose message
  holds \<open>N\<close> and the message of the last failure.
\<close>

theorem executeQueryWithRetry_attempts:
  assumes "1 \<le> N"
    and "executeQueryWithRetry env qg mongoQuery originalQuery N w = (r, w')"
  shows "\<exists>evs. w' = w @ evs \<and> attempts evs \<le> nat N \<and>
           (\<forall>q rows. Aggregate q (Inr rows) \<in> set evs \<longrightarrow> r = Inr (Some rows)) \<and>
           ((\<forall>q out. Aggregate q out \<in> set evs \<longrightarrow> isl out) \<and>
            (\<forall>request out. ChatCreate request out \<in> set evs \<longrightarrow> \<not> isl (fixQuery_try env out)) \<longrightarrow>
              attempts evs = nat N \<and>
              (\<exists>q m. last evs = Aggregate q (Inl m) \<and>
                 r = Inl (Error (''Database query failed after '' @ show_int N
                                 @ '' attempts: '' @ m))))"
proof -
  have "0 < N" using assms(1) by simp
  from retry_loop_run[OF this assms(2)[unfolded executeQueryWithRetry_def]]
  show ?thesis by (simp del: append_assoc) blast
qed

theorem executeQueryWithRetry_attempts_witness:
  "(1::int) \<le> 3 \<and>
   fst run_third_attempt = Inr (Some sample_rows) \<and>
   attempts (snd run_third_attempt) = 3 \<and>
   (\<exists>evs. snd run_third_attempt = [] @ evs \<and> attempts evs \<le> nat 3 \<and>
      (\<forall>q rows. Aggregate q (Inr rows) \<in> set evs \<longrightarrow> fst run_third_attempt = Inr (Some rows)) \<and>
      ((\<forall>q out. Aggregate q out \<in> set evs \<longrightarrow> isl out) \<and>
       (\<forall>request out. ChatCreate request out \<in> set evs \<longrightarrow>
          \<not> isl (fixQuery_try (stub_env (oracle_replies ''[]'') (store_fails_first 2 sample_rows)) out)) \<longrightarrow>
         attempts evs = nat 3 \<and>
         (\<exists>q m. last evs = Aggregate q (Inl m) \<and>
            fst run_third_attempt =
              Inl (Error (''Database query failed after '' @ show_int 3 @ '' attempts: '' @ m)))))"
proof -
  have h1: "(1::int) \<le> 3" by simp
  have h2: "executeQueryWithRetry (stub_env (oracle_replies ''[]'') (store_fails_first 2 sample_rows))
       ready_generator (JArray []) ''Average rating for Rishi Bollu'' 3 []
     = (fst run_third_attempt, snd run_third_attempt)"
    by (simp add: run_third_attempt_def)
  from executeQueryWithRetry_attempts[OF h1 h2] run_third_attempt_value h1
  show ?thesis by blast
qed

text \<open>
  C4: a repair the \<^verbatim>\<open>try\<close> block of \<^verbatim>\<open>fixQuery\<close> rejects is the last external call of the
  run, whatever the budget, and the run throws the error that wraps the repair's error.
\<close>

theorem executeQueryWithRetry_repair_failure:
  assumes "executeQueryWithRetry env qg mongoQuery originalQuery N w = (r, w')"
    and "w' = w @ pre @ ChatCreate request outcome # post"
    and "fixQuery_try env outcome = Inl fixError"
  shows "post = [] \<and> r = Inl (Error (''Query could not be fixed: '' @ message fixError))"
proof (cases "0 < N")
  case False
  with assms(1) have "w' = w"
    by (simp add: executeQueryWithRetry_def retry_loop.simps)
  with assms(2) show ?thesis by simp
next
  case True
  from retry_loop_run[OF True assms(1)[unfolded executeQueryWithRetry_def]] assms(2,3)
  show ?thesis by auto
qed

theorem executeQueryWithRetry_repair_failure_witness:
  "fixQuery_try (stub_env oracle_unavailable store_always_fails) (Inl ''Connection error.'')
     = Inl (Error ''Failed to fix query: Connection error.'') \<and>
   (\<exists>request. snd run_oracle_down =
      [] @ [Aggregate (JArray []) (Inl ''boom'')] @ ChatCreate request (Inl ''Connection error.'') # []) \<and>
   fst run_oracle_down =
     Inl (Error (''Query could not be fixed: ''
                 @ message (Error ''Failed to fix query: Connection error.'')))"
proof -
  have h3: "fixQuery_try (stub_env oracle_unavailable store_always_fails) (Inl ''Connection error.'')
     = Inl (Error ''Failed to fix query: Connection error.'')"
    by (simp add: fixQuery_try_def)
  have h1: "executeQueryWithRetry (stub_env oracle_unavailable store_always_fails)
       ready_generator (JArray []) ''Average rating for Rishi Bollu'' 5 []
     = (fst run_oracle_down, snd run_oracle_down)"
    by (simp add: run_oracle_down_def)
  have h2: "snd run_oracle_down = [] @ [Aggregate (JArray []) (Inl ''boom'')]
         @ ChatCreate \<lparr>model = ''gpt-4'', system_content = qg_context ready_generator,
              user_content = fixPrompt (stub_env oracle_unavailable store_always_fails)
                               ''Average rating for Rishi Bollu'' ''boom'' (JArray []),
              temperature = 1 / 10, max_tokens = 1000\<rparr> (Inl ''Connection error.'') # []"
    by (simp add: run_oracle_down_value)
  from executeQueryWithRetry_repair_failure[OF h1 h2 h3] h2 h3
  show ?thesis by blast
qed

section \<open>Initialisation\<close>

text \<open>
  C9: a second \<^verbatim>\<open>initialize\<close> changes nothing, on the query generator and on the result
  analyzer: the state after two calls is the state after one, the flag is set and the
  stored context is the same. The function has no failing branch.
\<close>

theorem initialize_idempotent:
  "initialize (initialize g) = initialize g \<and>
   qg_isInitialized (initialize g) \<and>
   qg_context (initialize (initialize g)) = qg_context (initialize g) \<and>
   initialize_analyzer (initialize_analyzer a) = initialize_analyzer a \<and>
   ra_isInitialized (initialize_analyzer a) \<and>
   ra_context (initialize_analyzer (initialize_analyzer a)) = ra_context (initialize_analyzer a)"
  by (simp add: initialize_def initialize_analyzer_def)

lemma ready_generator_initialized: "qg_isInitialized ready_generator"
  by (simp add: ready_generator_def initialize_def)

lemma ready_analyzer_initialized: "ra_isInitialized ready_analyzer"
  by (simp add: ready_analyzer_def initialize_analyzer_def)

text \<open>
  Before \<^verbatim>\<open>initialize\<close>, \<^verbatim>\<open>generateQuery\<close> and \<^verbatim>\<open>analyzeResults\<close> throw at once and call
  nothing.
\<close>

lemma generateQuery_not_initialized:
  "\<not> qg_isInitialized this \<Longrightarrow>
     generateQuery env this userQuery w = (Inl (Error ''Query Generator not initialized''), w)"
  by (simp add: generateQuery_def)

lemma analyzeResults_not_initialized:
  "\<not> ra_isInitialized this \<Longrightarrow>
     analyzeResults env this originalQuery results w =
       (Inl (Error ''Result Analyzer not initialized''), w)"
  by (simp add: analyzeResults_def)

text \<open>\<^verbatim>\<open>fixQuery\<close> does not read the flag, and always calls the oracle.\<close>

lemma fixQuery_ignores_isInitialized:
  "fixQuery env (this\<lparr>qg_isInitialized := b\<rparr>) originalQuery errorMessage failedQuery w =
   fixQuery env this originalQuery errorMessage failedQuery w"
  by (simp add: fixQuery_def)

lemma fixQuery_calls_oracle:
  "\<exists>request outcome.
     snd (fixQuery env this originalQuery errorMessage failedQuery w) = w @ [ChatCreate request outcome]"
  by (simp add: fixQuery_def Let_def)

text \<open>
  C3: \<^verbatim>\<open>fixQuery\<close> has no such guard. On a generator that was never initialized it calls
  the oracle, with \<^verbatim>\<open>null\<close> as the system message, and returns what the oracle's text
  parses to.
\<close>

theorem fixQuery_not_initialized_calls_oracle:
  "fixQuery (stub_env (oracle_replies ''[]'') store_always_fails)
     \<lparr>qg_isInitialized = False, qg_context = None\<rparr>
     ''Average rating for Rishi Bollu'' ''boom'' (JArray []) []
   = (Inr (JArray []),
      [ChatCreate
         \<lparr>model = ''gpt-4'', system_content = None,
          user_content = fixPrompt (stub_env (oracle_replies ''[]'') store_always_fails)
                           ''Average rating for Rishi Bollu'' ''boom'' (JArray []),
          temperature = 1 / 10, max_tokens = 1000\<rparr>
         (Inr (ChatCompletion [Some ''[]'']))])"
  by (simp add: fixQuery_def fixQuery_try_def stub_env_def oracle_replies_def
      message_content_trim_def ascii_trim_def ascii_space_def stub_JSON_parse_def Let_def)

section \<open>The query translator\<close>

text \<open>\<^verbatim>\<open>fixQuery\<close> returns whatever value the oracle's trimmed text parses to.\<close>

lemma fixQuery_returns_parsed:
  "chat_completions_create env w
     \<lparr>model = ''gpt-4'', system_content = qg_context this,
      user_content = fixPrompt env originalQuery errorMessage failedQuery,
      temperature = 1 / 10, max_tokens = 1000\<rparr> = Inr (ChatCompletion (Some content # cs)) \<Longrightarrow>
   JSON_parse env (String_trim env content) = Inr v \<Longrightarrow>
   fst (fixQuery env this originalQuery errorMessage failedQuery w) = Inr v"
  by (simp add: fixQuery_def fixQuery_try_def message_content_trim_def Let_def)

text \<open>
  C2: \<^verbatim>\<open>fixQuery\<close> does not check that the parsed text is an array. When the oracle
  answers \<^verbatim>\<open>{}\<close>, \<^verbatim>\<open>fixQuery\<close> returns the object, where \<^verbatim>\<open>generateQuery\<close> rejects the
  same answer.
\<close>

theorem fixQuery_returns_non_array:
  "fst (fixQuery (stub_env (oracle_replies ''{}'') store_always_fails) ready_generator
          ''Average rating for Rishi Bollu'' ''boom'' (JArray []) []) = Inr (JObject []) \<and>
   \<not> isArray (JObject []) \<and>
   fst (generateQuery (stub_env (oracle_replies ''{}'') store_always_fails) ready_generator
          ''Average rating for Rishi Bollu'' []) =
     Inl (Error ''Failed to generate MongoDB query: Invalid MongoDB query generated: Query must be an array'')"
  by (simp add: fixQuery_def fixQuery_try_def generateQuery_def stub_env_def oracle_replies_def
      message_content_trim_def ascii_trim_def ascii_space_def stub_JSON_parse_def Let_def
      ready_generator_def initialize_def)

text \<open>
  C5, as the code has it: once initialized, \<^verbatim>\<open>generateQuery\<close> returns an array (the
  empty one included) or throws the error whose message starts with
  \<^verbatim>\<open>Failed to generate MongoDB query: \<close>, whatever the oracle answers. The elements of
  the array are not inspected.
\<close>

theorem generateQuery_array_or_TranslationError:
  assumes "qg_isInitialized this"
    and "generateQuery env this userQuery w = (r, w')"
  shows "(\<exists>stages. r = Inr (JArray stages)) \<or>
         (\<exists>msg. r = Inl (Error (''Failed to generate MongoDB query: '' @ msg)))"
  using assms
  by (auto simp: generateQuery_def Let_def split: sum.splits if_splits elim: isArray.elims)

theorem generateQuery_array_or_TranslationError_witness:
  "qg_isInitialized ready_generator \<and>
   fst (generateQuery (stub_env (oracle_replies ''[]'') store_always_fails) ready_generator
          ''Average rating for Rishi Bollu'' []) = Inr (JArray []) \<and>
   ((\<exists>stages. fst (generateQuery (stub_env (oracle_replies ''[]'') store_always_fails)
                    ready_generator ''Average rating for Rishi Bollu'' []) = Inr (JArray stages)) \<or>
    (\<exists>msg. fst (generateQuery (stub_env (oracle_replies ''[]'') store_always_fails)
                 ready_generator ''Average rating for Rishi Bollu'' [])
       = Inl (Error (''Failed to generate MongoDB query: '' @ msg))))"
proof -
  have v: "fst (generateQuery (stub_env (oracle_replies ''[]'') store_always_fails) ready_generator
          ''Average rating for Rishi Bollu'' []) = Inr (JArray [])"
    by (simp add: generateQuery_def ready_generator_initialized stub_env_def oracle_replies_def
        message_content_trim_def ascii_trim_def ascii_space_def stub_JSON_parse_def Let_def)
  from generateQuery_array_or_TranslationError[OF ready_generator_initialized prod.collapse[symmetric]]
    v ready_generator_initialized
  show ?thesis by blast
qed

text \<open>
  The claim as stated fails: the oracle's \<^verbatim>\<open>[1]\<close> is returned, an array whose element is
  not a stage object.
\<close>

theorem generateQuery_unchecked_elements_counterexample:
  "fst (generateQuery (stub_env (oracle_replies ''[1]'') store_always_fails) ready_generator
          ''Average rating for Rishi Bollu'' []) = Inr (JArray [JNumber (Finite 1)]) \<and>
   \<not> is_structured_query (JArray [JNumber (Finite 1)])"
  by (simp add: generateQuery_def ready_generator_initialized stub_env_def oracle_replies_def
      message_content_trim_def ascii_trim_def ascii_space_def stub_JSON_parse_def Let_def)

section \<open>The result narrator\<close>

text \<open>
  The recogniser looks at the first record only. When that record has a field named
  \<^verbatim>\<open>hasOwnProperty\<close> the recogniser throws, and so does the summary.
\<close>

lemma isAggregatedData_first_record:
  "rs = [] \<or> \<not> has_field (hd rs) ''hasOwnProperty'' \<Longrightarrow>
     isAggregatedData (Some rs) =
       Inr (rs \<noteq> [] \<and> carries_aggregate (hd rs) \<and> length rs \<le> 200)"
  by (cases rs) (auto simp: isAggregatedData_def hasOwnProperty_def carries_aggregate_def)

lemma isAggregatedData_shadowed:
  "has_field firstResult ''hasOwnProperty'' \<Longrightarrow>
     isAggregatedData (Some (firstResult # rest)) =
       Inl ''firstResult.hasOwnProperty is not a function''"
  by (simp add: isAggregatedData_def hasOwnProperty_def)

lemma prepareResultSummary_shadowed:
  "has_field firstResult ''hasOwnProperty'' \<Longrightarrow>
     prepareResultSummary env (Some (firstResult # rest)) =
       Inl ''firstResult.hasOwnProperty is not a function''"
  by (simp add: prepareResultSummary_def isAggregatedData_shadowed)

text \<open>
  C6, as the code has it, for a result set whose first record has no field named
  \<^verbatim>\<open>hasOwnProperty\<close>: an absent or empty result set gives the fixed sentence; a result
  set whose first record carries \<^verbatim>\<open>_id\<close> and an aggregate-value field, with at most 200
  records, gives the full serialisation under the aggregated heading; another result
  set of at most 10 records gives the full serialisation; every other goes to the
  digest.
\<close>

theorem prepareResultSummary_tiers:
  assumes "rs = [] \<or> \<not> has_field (hd rs) ''hasOwnProperty''"
  shows "prepareResultSummary env None = Inr ''No data found matching the query criteria.'' \<and>
         prepareResultSummary env (Some rs) =
           (if rs = [] then Inr ''No data found matching the query criteria.''
            else if carries_aggregate (hd rs) \<and> length rs \<le> 200 then
              Inr (''Complete aggregated results ('' @ show_nat (length rs)
                   @ '' records):\<newline>'' @ JSON_stringify env (results_json rs) 2)
            else if length rs \<le> 10 then
              Inr (''Complete results: '' @ JSON_stringify env (results_json rs) 2)
            else digest env rs)"
  using isAggregatedData_first_record[OF assms]
  by (auto simp: prepareResultSummary_def)

lemma stub_env_oracle:
  "chat_completions_create (stub_env oracle store) = oracle"
  "String_trim (stub_env oracle store) = ascii_trim"
  by (simp_all add: stub_env_def)

lemma summary_sample_rows:
  "prepareResultSummary (stub_env oracle store) (Some sample_rows) =
     Inr ''Complete aggregated results (1 records):\<newline><json>''"
  by (simp add: prepareResultSummary_def isAggregatedData_def hasOwnProperty_def has_field_def
      sample_rows_def stub_env_def stub_JSON_stringify_def show_nat.simps digit_def)

theorem prepareResultSummary_tiers_witness:
  "\<not> has_field (hd sample_rows) ''hasOwnProperty'' \<and>
   carries_aggregate (hd sample_rows) \<and>
   prepareResultSummary quiet_env (Some sample_rows) =
     Inr (''Complete aggregated results ('' @ show_nat (length sample_rows)
          @ '' records):\<newline>'' @ JSON_stringify quiet_env (results_json sample_rows) 2)"
proof -
  have h: "\<not> has_field (hd sample_rows) ''hasOwnProperty''"
    by (simp add: sample_rows_def has_field_def)
  have c: "carries_aggregate (hd sample_rows)"
    by (simp add: sample_rows_def carries_aggregate_def has_field_def)
  have n: "sample_rows \<noteq> []" "length sample_rows \<le> 200"
    by (simp_all add: sample_rows_def)
  from prepareResultSummary_tiers[OF disjI2, OF h, of quiet_env] h c n
  show ?thesis by simp
qed

text \<open>
  The claim as stated fails: of \<open>mixed11\<close> only the first record is aggregated, so with
  its eleven records it is neither aggregated in every record nor small, and its summary
  is the full serialisation, not the digest.
\<close>

theorem prepareResultSummary_first_record_counterexample:
  "\<not> every_record_aggregated mixed11 \<and> \<not> length mixed11 \<le> 10 \<and>
   prepareResultSummary quiet_env (Some mixed11) =
     Inr (''Complete aggregated results (11 records):\<newline>''
          @ JSON_stringify quiet_env (results_json mixed11) 2) \<and>
   prepareResultSummary quiet_env (Some mixed11) \<noteq> digest quiet_env mixed11"
  by code_simp

text \<open>
  The distinct elements: each element of the list, once. The comma-separated line is
  what \<^verbatim>\<open>join\<close> makes of strings.
\<close>

lemma set_distinct_first: "set (distinct_first xs) = set xs"
  by (induction xs) auto

lemma distinct_distinct_first: "distinct (distinct_first xs)"
  by (induction xs) (auto simp: set_distinct_first distinct_removeAll)


















text \<open>An analysis whose summary throws fails before the oracle is called.\<close>

lemma analyzeResults_summary_throws:
  "ra_isInitialized this \<Longrightarrow> prepareResultSummary env results = Inl msg \<Longrightarrow>
     analyzeResults env this originalQuery results w =
       (Inl (Error (''Failed to analyze results: '' @ msg)), w)"
  by (simp add: analyzeResults_def)

lemma analyzeResults_shadowed_rows:
  "analyzeResults (stub_env (oracle_replies ''ok'') store_always_fails) ready_analyzer
     ''Average rating for Rishi Bollu'' (Some shadowed_rows) [] =
   (Inl (Error ''Failed to analyze results: firstResult.hasOwnProperty is not a function''), [])"
proof -
  have "has_field (hd shadowed_rows) ''hasOwnProperty''"
    by (simp add: shadowed_rows_def has_field_def)
  then have "prepareResultSummary (stub_env (oracle_replies ''ok'') store_always_fails)
               (Some shadowed_rows) = Inl ''firstResult.hasOwnProperty is not a function''"
    using prepareResultSummary_shadowed[of "hd shadowed_rows" _ "tl shadowed_rows"]
    by (simp add: shadowed_rows_def)
  from analyzeResults_summary_throws[OF ready_analyzer_initialized this] show ?thesis by simp
qed

text \<open>
  C8, as the code has it: an initialized \<^verbatim>\<open>analyzeResults\<close> on a result set throws the
  error whose message starts with \<^verbatim>\<open>Failed to analyze results: \<close> when preparing the
  summary throws, and then calls nothing. Otherwise it calls the oracle once; it throws
  the same kind of error when the call fails, and when the response has no choice or a
  \<^verbatim>\<open>null\<close> content. When the response has text, the trimmed text is returned, empty or
  not.
\<close>

theorem analyzeResults_outcomes:
  assumes "ra_isInitialized this"
    and "analyzeResults env this originalQuery (Some rs) w = (r, w')"
  shows "(\<forall>msg. prepareResultSummary env (Some rs) = Inl msg \<longrightarrow>
            w' = w \<and> r = Inl (Error (''Failed to analyze results: '' @ msg))) \<and>
         (\<forall>summary. prepareResultSummary env (Some rs) = Inr summary \<longrightarrow>
            (\<exists>request outcome. w' = w @ [ChatCreate request outcome] \<and>
               outcome = chat_completions_create env w request \<and>
               (\<forall>msg. outcome = Inl msg \<longrightarrow>
                  r = Inl (Error (''Failed to analyze results: '' @ msg))) \<and>
               (\<forall>cs. outcome = Inr (ChatCompletion []) \<or> outcome = Inr (ChatCompletion (None # cs)) \<longrightarrow>
                  (\<exists>msg. r = Inl (Error (''Failed to analyze results: '' @ msg)))) \<and>
               (\<forall>content cs. outcome = Inr (ChatCompletion (Some content # cs)) \<longrightarrow>
                  r = Inr (String_trim env content))))"
  using assms
  by (auto simp: analyzeResults_def Let_def message_content_trim_def
           split: sum.splits list.splits option.splits)

theorem analyzeResults_outcomes_witness:
  "ra_isInitialized ready_analyzer \<and>
   prepareResultSummary (stub_env oracle_unavailable store_always_fails) (Some sample_rows) =
     Inr ''Complete aggregated results (1 records):\<newline><json>'' \<and>
   fst (analyzeResults (stub_env oracle_unavailable store_always_fails) ready_analyzer
          ''Average rating for Rishi Bollu'' (Some sample_rows) [])
     = Inl (Error ''Failed to analyze results: Connection error.'') \<and>
   (\<exists>request outcome.
      snd (analyzeResults (stub_env oracle_unavailable store_always_fails) ready_analyzer
             ''Average rating for Rishi Bollu'' (Some sample_rows) [])
        = [] @ [ChatCreate request outcome])"
proof -
  have v: "fst (analyzeResults (stub_env oracle_unavailable store_always_fails) ready_analyzer
          ''Average rating for Rishi Bollu'' (Some sample_rows) [])
     = Inl (Error ''Failed to analyze results: Connection error.'')"
    by (simp add: analyzeResults_def ready_analyzer_initialized summary_sample_rows
        stub_env_oracle oracle_unavailable_def Let_def)
  from analyzeResults_outcomes[OF ready_analyzer_initialized prod.collapse[symmetric]]
    v ready_analyzer_initialized summary_sample_rows
  show ?thesis by blast
qed

text \<open>The claim as stated fails: an empty answer of the oracle is returned as the analysis.\<close>

theorem analyzeResults_empty_text_counterexample:
  "fst (analyzeResults (stub_env (oracle_replies '''') store_always_fails) ready_analyzer
          ''Average rating for Rishi Bollu'' (Some sample_rows) []) = Inr ''''"
  by (simp add: analyzeResults_def ready_analyzer_initialized summary_sample_rows
      stub_env_oracle oracle_replies_def message_content_trim_def ascii_trim_def Let_def)

end
